theory Spec2Isabelle
  imports Complex_Main "HOL-Library.AList"
begin

section \<open>JavaScript values, errors and the process state\<close>

text \<open>
  The proxy is one Node.js module: three configuration constants read from the
  environment, two module-level variables (\<open>mongoClient\<close>, \<open>db\<close>), the function
  \<open>connectToMongo\<close>, eight Express route handlers, the \<open>app.listen\<close> callback and the
  \<open>SIGINT\<close> handler.  Request bodies and response bodies are JavaScript values.
  \<open>JFun\<close> stands for a built-in function object, which a property read can return
  through the prototype chain (\<open>[].sort\<close>).
\<close>

datatype jsval =
    JUndefined
  | JNull
  | JBool bool
  | JNum rat
  | JStr string
  | JArr "jsval list"
  | JObj "(string \<times> jsval) list"
  | JFun string

text \<open>A thrown \<open>Error\<close> object: its \<open>message\<close> and its \<open>code\<close> (\<open>undefined\<close> when the
  error carries none).\<close>

datatype js_error = JsError (err_message: string) (err_code: jsval)

definition TypeError :: "string \<Rightarrow> js_error" where
  "TypeError m = JsError m JUndefined"

text \<open>JavaScript truthiness, as tested by \<open>if (x)\<close>, \<open>!!x\<close> and \<open>x || y\<close>.\<close>

fun truthy :: "jsval \<Rightarrow> bool" where
  "truthy JUndefined = False"
| "truthy JNull = False"
| "truthy (JBool b) = b"
| "truthy (JNum n) = (n \<noteq> 0)"
| "truthy (JStr s) = (s \<noteq> [])"
| "truthy (JArr xs) = True"
| "truthy (JObj kvs) = True"
| "truthy (JFun f) = True"

text \<open>
  Reading a property \<open>v.k\<close>.  On \<open>null\<close> and \<open>undefined\<close> the read throws a
  \<open>TypeError\<close>.  On an object it gives the own property or \<open>undefined\<close>.  Of the
  property names this program reads (\<open>collection\<close>, \<open>query\<close>, \<open>options\<close>, \<open>pipeline\<close>,
  \<open>field\<close>, \<open>document\<close>, \<open>documents\<close>, \<open>sort\<close>, \<open>skip\<close>, \<open>limit\<close>, \<open>name\<close>) only
  \<open>sort\<close> is inherited from a prototype, by arrays, and only \<open>name\<close> by functions,
  so \<open>get_prop\<close> is meant for these names.
\<close>

definition null_read :: "string \<Rightarrow> string \<Rightarrow> js_error" where
  "null_read what k =
     TypeError (''Cannot read properties of '' @ what @ '' (reading '' @ k @ '')'')"

fun get_prop :: "jsval \<Rightarrow> string \<Rightarrow> js_error + jsval" where
  "get_prop JUndefined k = Inl (null_read ''undefined'' k)"
| "get_prop JNull k = Inl (null_read ''null'' k)"
| "get_prop (JObj kvs) k = Inr (case map_of kvs k of None \<Rightarrow> JUndefined | Some v \<Rightarrow> v)"
| "get_prop (JArr xs) k = Inr (if k = ''sort'' then JFun ''Array.prototype.sort'' else JUndefined)"
| "get_prop (JFun f) k = Inr (if k = ''name'' then JStr f else JUndefined)"
| "get_prop v k = Inr JUndefined"

text \<open>A destructuring default \<open>{ k = d }\<close> replaces exactly \<open>undefined\<close>.\<close>

definition or_default :: "jsval \<Rightarrow> jsval \<Rightarrow> jsval" where
  "or_default v d = (if v = JUndefined then d else v)"

text \<open>The driver's handles.  A client is built from the configured address, a database
  handle from a client and a name, a collection handle from a database handle and the
  (unvalidated) name given in the request.\<close>

datatype client = MongoClient "string option"

datatype dbh = Db client string

datatype coll = Collection dbh jsval

text \<open>A find cursor records what the handler asked of it: the collection, the filter and
  the \<open>sort\<close>, \<open>skip\<close> and \<open>limit\<close> calls made on it, in order.\<close>

datatype cursor_call = Sort jsval | Skip jsval | Limit jsval

datatype cursor = FindCursor coll jsval "cursor_call list"

text \<open>What the process does to the outside: console output (a label and the values
  printed), the life of the connection handle, listening and exiting.\<close>

datatype event =
    ConsoleLog string "jsval list"
  | ConsoleError string "jsval list"
  | ClientCreated client
  | ConnectCalled client
  | CloseCalled client
  | Listen jsval
  | Exit nat

record config =
  PORT :: jsval
  MONGODB_URI :: "string option"
  DATABASE :: string

record pstate =
  mongoClient :: "client option"
  db :: "dbh option"
  events :: "event list"

definition init_state :: pstate where
  "init_state = \<lparr>mongoClient = None, db = None, events = []\<rparr>"

text \<open>
  The driver, the clock and the runtime are outside the program.  A \<open>world\<close> gives the
  outcome of every external call made while one handler runs: \<open>None\<close> or \<open>Inr\<close> when
  the call returns, \<open>Some e\<close> or \<open>Inl e\<close> when it throws or its promise rejects.
  Every theorem below holds for every world.
\<close>

record world =
  date_now :: string
  node_version :: string
  new_MongoClient :: "string option \<Rightarrow> js_error option"
  client_connect :: "client \<Rightarrow> js_error option"
  client_db :: "client \<Rightarrow> string \<Rightarrow> js_error option"
  client_close :: "client \<Rightarrow> js_error option"
  admin_ping :: "dbh \<Rightarrow> js_error option"
  db_listCollections :: "dbh \<Rightarrow> js_error + jsval list"
  db_collection :: "dbh \<Rightarrow> jsval \<Rightarrow> js_error option"
  coll_countDocuments :: "coll \<Rightarrow> jsval \<Rightarrow> js_error + nat"
  coll_findOne :: "coll \<Rightarrow> js_error + jsval"
  coll_find :: "coll \<Rightarrow> jsval \<Rightarrow> js_error option"
  cursor_apply :: "cursor \<Rightarrow> cursor_call \<Rightarrow> js_error option"
  cursor_toArray :: "cursor \<Rightarrow> js_error + jsval list"
  coll_aggregate :: "coll \<Rightarrow> jsval \<Rightarrow> js_error + jsval list"
  coll_distinct :: "coll \<Rightarrow> jsval \<Rightarrow> jsval \<Rightarrow> js_error + jsval list"
  coll_insertOne :: "coll \<Rightarrow> jsval \<Rightarrow> js_error + jsval"
  coll_insertMany :: "coll \<Rightarrow> jsval \<Rightarrow> js_error + jsval"

section \<open>Computations that may throw\<close>

text \<open>A piece of handler code takes the process state and gives back either the thrown
  error (\<open>Inl\<close>) or its value (\<open>Inr\<close>), with the state it leaves.\<close>

type_synonym 'a comp = "pstate \<Rightarrow> (js_error + 'a) \<times> pstate"

definition succeed :: "'a \<Rightarrow> 'a comp" where
  "succeed x s = (Inr x, s)"

definition throw :: "js_error \<Rightarrow> 'a comp" where
  "throw e s = (Inl e, s)"

definition and_then :: "'a comp \<Rightarrow> ('a \<Rightarrow> 'b comp) \<Rightarrow> 'b comp" where
  "and_then m f s = (case m s of (Inl e, s') \<Rightarrow> (Inl e, s') | (Inr x, s') \<Rightarrow> f x s')"

definition try_catch :: "'a comp \<Rightarrow> (js_error \<Rightarrow> 'a comp) \<Rightarrow> 'a comp" where
  "try_catch m h s = (case m s of (Inl e, s') \<Rightarrow> h e s' | (Inr x, s') \<Rightarrow> (Inr x, s'))"

definition emit :: "event \<Rightarrow> unit comp" where
  "emit ev s = (Inr (), s\<lparr>events := events s @ [ev]\<rparr>)"

definition call :: "js_error option \<Rightarrow> unit comp" where
  "call r s = (case r of None \<Rightarrow> (Inr (), s) | Some e \<Rightarrow> (Inl e, s))"

definition await :: "js_error + 'a \<Rightarrow> 'a comp" where
  "await r s = (case r of Inl e \<Rightarrow> (Inl e, s) | Inr x \<Rightarrow> (Inr x, s))"

section \<open>The connection manager\<close>

text \<open>
  \<^verbatim>\<open>
  async function connectToMongo() {
    if (mongoClient) return;
    try {
      console.log('Connecting to MongoDB...');
      mongoClient = new MongoClient(MONGODB_URI);
      await mongoClient.connect();
      db = mongoClient.db(DATABASE);
      console.log('Connected to MongoDB');
    } catch (error) {
      console.error('MongoDB connection error:', error);
      throw error;
    }
  }
  \<close>
  (the messages are quoted without their emoji prefixes).  The assignment to \<open>mongoClient\<close> happens when the constructor has returned and before
  \<open>connect\<close> is awaited; the \<open>catch\<close> block does not undo it.
\<close>

definition set_mongoClient :: "client \<Rightarrow> unit comp" where
  "set_mongoClient c s =
     (Inr (), s\<lparr>mongoClient := Some c, events := events s @ [ClientCreated c]\<rparr>)"

definition set_db :: "dbh \<Rightarrow> unit comp" where
  "set_db d s = (Inr (), s\<lparr>db := Some d\<rparr>)"

definition connectToMongo :: "config \<Rightarrow> world \<Rightarrow> unit comp" where
  "connectToMongo cfg w s =
     (if mongoClient s \<noteq> None then (Inr (), s)
      else
        try_catch
          (and_then (emit (ConsoleLog ''Connecting to MongoDB...'' [])) (\<lambda>_.
           and_then (call (new_MongoClient w (MONGODB_URI cfg))) (\<lambda>_.
           and_then (set_mongoClient (MongoClient (MONGODB_URI cfg))) (\<lambda>_.
           and_then (emit (ConnectCalled (MongoClient (MONGODB_URI cfg)))) (\<lambda>_.
           and_then (call (client_connect w (MongoClient (MONGODB_URI cfg)))) (\<lambda>_.
           and_then (call (client_db w (MongoClient (MONGODB_URI cfg)) (DATABASE cfg))) (\<lambda>_.
           and_then (set_db (Db (MongoClient (MONGODB_URI cfg)) (DATABASE cfg))) (\<lambda>_.
           emit (ConsoleLog ''Connected to MongoDB'' [])))))))))
          (\<lambda>error.
           and_then (emit (ConsoleError ''MongoDB connection error:'' [JStr (err_message error)]))
             (\<lambda>_. throw error))
        s)"

section \<open>Responses and small helpers\<close>

record response =
  res_status :: nat
  res_body :: jsval

text \<open>\<open>res.json(x)\<close> answers with status 200, \<open>res.status(n).json(x)\<close> with status \<open>n\<close>.\<close>

definition res_json :: "jsval \<Rightarrow> response comp" where
  "res_json x = succeed \<lparr>res_status = 200, res_body = x\<rparr>"

definition res_status_json :: "nat \<Rightarrow> jsval \<Rightarrow> response comp" where
  "res_status_json n x = succeed \<lparr>res_status = n, res_body = x\<rparr>"

text \<open>Reading the module variable \<open>db\<close> to call the method \<open>k\<close> on it: while \<open>db\<close> is
  \<open>null\<close> the call throws a \<open>TypeError\<close>.\<close>

definition get_db :: "string \<Rightarrow> dbh comp" where
  "get_db k s = (case db s of None \<Rightarrow> (Inl (null_read ''null'' k), s) | Some d \<Rightarrow> (Inr d, s))"

text \<open>Destructuring \<open>const { k, ... } = req.body\<close> throws when the body is \<open>null\<close> or
  \<open>undefined\<close>.\<close>

definition destructure :: "jsval \<Rightarrow> string \<Rightarrow> js_error + jsval" where
  "destructure v k =
     (if v = JUndefined \<or> v = JNull
      then Inl (TypeError (''Cannot destructure property '' @ k @ '' of req.body''))
      else get_prop v k)"

text \<open>\<open>s.split(c)\<close> for a one-character separator.\<close>

fun split_on :: "char \<Rightarrow> string \<Rightarrow> string list" where
  "split_on c [] = [[]]"
| "split_on c (x # xs) =
     (if x = c then [] # split_on c xs
      else (case split_on c xs of [] \<Rightarrow> [[x]] | p # ps \<Rightarrow> (x # p) # ps))"

definition str_truthy :: "string option \<Rightarrow> bool" where
  "str_truthy v = (case v of None \<Rightarrow> False | Some u \<Rightarrow> u \<noteq> [])"

text \<open>\<open>MONGODB_URI ? MONGODB_URI.split('@')[1]?.split('/')[0] : 'not configured'\<close>\<close>

definition mongoUriHost :: "string option \<Rightarrow> jsval" where
  "mongoUriHost uri =
     (case uri of
        None \<Rightarrow> JStr ''not configured''
      | Some u \<Rightarrow>
          if u = [] then JStr ''not configured''
          else (case split_on CHR ''@'' u of
                  _ # x # _ \<Rightarrow> (case split_on CHR ''/'' x of h # _ \<Rightarrow> JStr h | [] \<Rightarrow> JUndefined)
                | _ \<Rightarrow> JUndefined))"

section \<open>The health check\<close>

text \<open>
  \<open>GET /health\<close> of the enhanced module.  The object \<open>health\<close> is built, then changed
  inside the \<open>try\<close> block and again inside \<open>catch\<close>; \<open>health_probe\<close> is the \<open>try\<close>
  block, giving the object as it stands when the block ends or throws.  An assignment
  \<open>health.k = v\<close> is \<open>AList.update\<close>: in place when the key exists, appended otherwise.
\<close>

definition health_probe ::
  "world \<Rightarrow> dbh \<Rightarrow> (string \<times> jsval) list \<Rightarrow> js_error option \<times> (string \<times> jsval) list" where
  "health_probe w d health =
     (case admin_ping w d of
        Some error \<Rightarrow> (Some error, health)
      | None \<Rightarrow>
          (let health1 = AList.update ''ping'' (JStr ''success'') health in
           case db_collection w d (JStr ''network_tests'') of
             Some error \<Rightarrow> (Some error, health1)
           | None \<Rightarrow>
               (case coll_countDocuments w (Collection d (JStr ''network_tests'')) JUndefined of
                  Inl error \<Rightarrow> (Some error, health1)
                | Inr count \<Rightarrow>
                    (None,
                     AList.update ''documentCount'' (JNum (of_nat count))
                       (AList.update ''testCollection'' (JStr ''accessible'') health1)))))"

text \<open>The object \<open>health\<close> as first built.\<close>

definition health_start :: "config \<Rightarrow> world \<Rightarrow> pstate \<Rightarrow> (string \<times> jsval) list" where
  "health_start cfg w s =
     [(''status'', JStr ''ok''),
      (''connected'', JBool (db s \<noteq> None)),
      (''database'', JStr (DATABASE cfg)),
      (''timestamp'', JStr (date_now w))]"

definition health_handler :: "config \<Rightarrow> world \<Rightarrow> response comp" where
  "health_handler cfg w s =
     (let health = health_start cfg w s
      in case db s of
           None \<Rightarrow> res_json (JObj health) s
         | Some d \<Rightarrow>
             (case health_probe w d health of
                (None, health2) \<Rightarrow> res_json (JObj health2) s
              | (Some error, health2) \<Rightarrow>
                  res_json
                    (JObj (AList.update ''status'' (JStr ''degraded'')
                            (AList.update ''pingError'' (JStr (err_message error))
                              (AList.update ''ping'' (JStr ''failed'') health2)))) s))"

text \<open>\<open>GET /health\<close> of \<open>server.js\<close>, the earlier version of the module: no probe.\<close>

definition health_handler_v1 :: "config \<Rightarrow> world \<Rightarrow> response comp" where
  "health_handler_v1 cfg w s =
     res_json
       (JObj [(''status'', JStr ''ok''),
              (''connected'', JBool (db s \<noteq> None)),
              (''database'', JStr (DATABASE cfg))]) s"

section \<open>The diagnostic endpoint\<close>

definition success :: jsval where
  "success = JObj [(''status'', JStr ''success'')]"

definition failed :: "js_error \<Rightarrow> jsval" where
  "failed error = JObj [(''status'', JStr ''failed''), (''error'', JStr (err_message error))]"

text \<open>Test 2: \<open>await db.admin().ping()\<close> in its own \<open>try\<close>/\<open>catch\<close>.\<close>

definition test_ping :: "world \<Rightarrow> jsval comp" where
  "test_ping w =
     try_catch
       (and_then (get_db ''admin'') (\<lambda>d.
        and_then (call (admin_ping w d)) (\<lambda>_.
        succeed success)))
       (\<lambda>error. succeed (failed error))"

text \<open>Test 3: \<open>collections.map(c => c.name)\<close> reads \<open>name\<close> of every entry.\<close>

fun names_of :: "jsval list \<Rightarrow> js_error + jsval list" where
  "names_of [] = Inr []"
| "names_of (c # cs) =
     (case get_prop c ''name'' of
        Inl e \<Rightarrow> Inl e
      | Inr n \<Rightarrow> (case names_of cs of Inl e \<Rightarrow> Inl e | Inr ns \<Rightarrow> Inr (n # ns)))"

definition test_listCollections :: "world \<Rightarrow> jsval comp" where
  "test_listCollections w =
     try_catch
       (and_then (get_db ''listCollections'') (\<lambda>d.
        and_then (await (db_listCollections w d)) (\<lambda>collections.
        and_then (await (names_of collections)) (\<lambda>names.
        succeed (JObj [(''status'', JStr ''success''),
                       (''count'', JNum (of_nat (length collections))),
                       (''collections'', JArr names)])))))
       (\<lambda>error. succeed (failed error))"

text \<open>Test 4: \<open>countDocuments()\<close> and \<open>findOne()\<close> on \<open>network_tests\<close>.\<close>

definition test_networkTests :: "world \<Rightarrow> jsval comp" where
  "test_networkTests w =
     try_catch
       (and_then (get_db ''collection'') (\<lambda>d.
        and_then (call (db_collection w d (JStr ''network_tests''))) (\<lambda>_.
        and_then (await (coll_countDocuments w (Collection d (JStr ''network_tests'')) JUndefined)) (\<lambda>count.
        and_then (await (coll_findOne w (Collection d (JStr ''network_tests'')))) (\<lambda>sample.
        succeed (JObj [(''status'', JStr ''success''),
                       (''count'', JNum (of_nat count)),
                       (''hasSampleData'', JBool (truthy sample))]))))))
       (\<lambda>error. succeed (failed error))"

text \<open>The object \<open>diagnostics\<close> with a given \<open>tests\<close> member.  \<open>connection\<close> is filled
  from the module variables as they are when the request arrives.\<close>

definition diagnostics :: "config \<Rightarrow> world \<Rightarrow> pstate \<Rightarrow> (string \<times> jsval) list \<Rightarrow> jsval" where
  "diagnostics cfg w s tests =
     JObj [(''timestamp'', JStr (date_now w)),
           (''environment'',
              JObj [(''nodeVersion'', JStr (node_version w)),
                    (''port'', PORT cfg),
                    (''database'', JStr (DATABASE cfg)),
                    (''mongoUriConfigured'', JBool (str_truthy (MONGODB_URI cfg))),
                    (''mongoUriHost'', mongoUriHost (MONGODB_URI cfg))]),
           (''connection'',
              JObj [(''clientInitialized'', JBool (mongoClient s \<noteq> None)),
                    (''dbInitialized'', JBool (db s \<noteq> None))]),
           (''tests'', JObj tests)]"

text \<open>\<open>GET /diagnose\<close>.  When test 1 fails the handler returns at once
  (\<open>return res.json(diagnostics)\<close>); otherwise tests 2 to 4 run one after the other.\<close>

definition diagnose_handler :: "config \<Rightarrow> world \<Rightarrow> response comp" where
  "diagnose_handler cfg w s =
     (case connectToMongo cfg w s of
        (Inl error, s1) \<Rightarrow> res_json (diagnostics cfg w s [(''connection'', failed error)]) s1
      | (Inr _, s1) \<Rightarrow>
          and_then (test_ping w) (\<lambda>ping.
          and_then (test_listCollections w) (\<lambda>listCollections.
          and_then (test_networkTests w) (\<lambda>networkTests.
          res_json (diagnostics cfg w s
            [(''connection'', success),
             (''ping'', ping),
             (''listCollections'', listCollections),
             (''networkTests'', networkTests)])))) s1)"

section \<open>The data operations\<close>

text \<open>The two \<open>catch\<close> blocks used by the data operations of the enhanced module: the
  read operations log with a tag and answer \<open>{error, code, details}\<close>, the inserts
  answer \<open>{error}\<close>.\<close>

definition catch_detailed :: "string \<Rightarrow> js_error \<Rightarrow> response comp" where
  "catch_detailed tag error =
     and_then (emit (ConsoleError tag [JStr (err_message error)])) (\<lambda>_.
     res_status_json 500
       (JObj [(''error'', JStr (err_message error)),
              (''code'', err_code error),
              (''details'', JStr ''Check server logs for more information'')]))"

definition catch_plain :: "string \<Rightarrow> js_error \<Rightarrow> response comp" where
  "catch_plain tag error =
     and_then (emit (ConsoleError tag [JStr (err_message error)])) (\<lambda>_.
     res_status_json 500 (JObj [(''error'', JStr (err_message error))]))"

text \<open>\<open>if (options.k) cursor = cursor.k(options.k)\<close>: the cursor method is called only
  for a truthy value, and may throw.\<close>

definition add_call :: "cursor \<Rightarrow> cursor_call \<Rightarrow> cursor" where
  "add_call cur c = (case cur of FindCursor cl q cs \<Rightarrow> FindCursor cl q (cs @ [c]))"

definition apply_if_truthy :: "world \<Rightarrow> (jsval \<Rightarrow> cursor_call) \<Rightarrow> jsval \<Rightarrow> cursor \<Rightarrow> cursor comp" where
  "apply_if_truthy w f v cur =
     (if truthy v
      then and_then (call (cursor_apply w cur (f v))) (\<lambda>_. succeed (add_call cur (f v)))
      else succeed cur)"

text \<open>The part of \<open>POST /query\<close> from \<open>coll.find(query)\<close> to \<open>cursor.toArray()\<close>, the same
  in both versions of the module.\<close>

definition find_documents :: "world \<Rightarrow> coll \<Rightarrow> jsval \<Rightarrow> jsval \<Rightarrow> (jsval list) comp" where
  "find_documents w cl query options =
     and_then (call (coll_find w cl query)) (\<lambda>_.
     and_then (await (get_prop options ''sort'')) (\<lambda>sort.
     and_then (apply_if_truthy w Sort sort (FindCursor cl query [])) (\<lambda>cursor1.
     and_then (await (get_prop options ''skip'')) (\<lambda>skip.
     and_then (apply_if_truthy w Skip skip cursor1) (\<lambda>cursor2.
     and_then (await (get_prop options ''limit'')) (\<lambda>limit.
     and_then (apply_if_truthy w Limit limit cursor2) (\<lambda>cursor3.
     await (cursor_toArray w cursor3))))))))"

definition query_try :: "config \<Rightarrow> world \<Rightarrow> jsval \<Rightarrow> response comp" where
  "query_try cfg w body =
     and_then (connectToMongo cfg w) (\<lambda>_.
     and_then (await (destructure body ''collection'')) (\<lambda>collection.
     and_then (await (destructure body ''query'')) (\<lambda>q.
     and_then (await (destructure body ''options'')) (\<lambda>opt.
     and_then (emit (ConsoleLog ''[QUERY] Collection, Query, Options:''
                 [collection, or_default q (JObj []), or_default opt (JObj [])])) (\<lambda>_.
     and_then (get_db ''collection'') (\<lambda>d.
     and_then (call (db_collection w d collection)) (\<lambda>_.
     and_then (find_documents w (Collection d collection)
                 (or_default q (JObj [])) (or_default opt (JObj []))) (\<lambda>results.
     and_then (emit (ConsoleLog ''[QUERY] Success: returned documents''
                 [JNum (of_nat (length results))])) (\<lambda>_.
     res_json (JArr results))))))))))"

definition query_handler :: "config \<Rightarrow> world \<Rightarrow> jsval \<Rightarrow> response comp" where
  "query_handler cfg w body =
     try_catch (query_try cfg w body) (catch_detailed ''[QUERY] Error:'')"



definition aggregate_try :: "config \<Rightarrow> world \<Rightarrow> jsval \<Rightarrow> response comp" where
  "aggregate_try cfg w body =
     and_then (connectToMongo cfg w) (\<lambda>_.
     and_then (await (destructure body ''collection'')) (\<lambda>collection.
     and_then (await (destructure body ''pipeline'')) (\<lambda>pipeline.
     and_then (emit (ConsoleLog ''[AGGREGATE] Collection, Pipeline:'' [collection, pipeline])) (\<lambda>_.
     and_then (get_db ''collection'') (\<lambda>d.
     and_then (call (db_collection w d collection)) (\<lambda>_.
     and_then (await (coll_aggregate w (Collection d collection) pipeline)) (\<lambda>results.
     and_then (emit (ConsoleLog ''[AGGREGATE] Success: returned documents''
                 [JNum (of_nat (length results))])) (\<lambda>_.
     res_json (JArr results)))))))))"

definition aggregate_handler :: "config \<Rightarrow> world \<Rightarrow> jsval \<Rightarrow> response comp" where
  "aggregate_handler cfg w body =
     try_catch (aggregate_try cfg w body) (catch_detailed ''[AGGREGATE] Error:'')"

definition count_try :: "config \<Rightarrow> world \<Rightarrow> jsval \<Rightarrow> response comp" where
  "count_try cfg w body =
     and_then (connectToMongo cfg w) (\<lambda>_.
     and_then (await (destructure body ''collection'')) (\<lambda>collection.
     and_then (await (destructure body ''query'')) (\<lambda>q.
     and_then (emit (ConsoleLog ''[COUNT] Collection, Query:''
                 [collection, or_default q (JObj [])])) (\<lambda>_.
     and_then (get_db ''collection'') (\<lambda>d.
     and_then (call (db_collection w d collection)) (\<lambda>_.
     and_then (await (coll_countDocuments w (Collection d collection)
                 (or_default q (JObj [])))) (\<lambda>count.
     and_then (emit (ConsoleLog ''[COUNT] Success: documents'' [JNum (of_nat count)])) (\<lambda>_.
     res_json (JObj [(''count'', JNum (of_nat count))])))))))))"

definition count_handler :: "config \<Rightarrow> world \<Rightarrow> jsval \<Rightarrow> response comp" where
  "count_handler cfg w body =
     try_catch (count_try cfg w body) (catch_detailed ''[COUNT] Error:'')"

definition distinct_try :: "config \<Rightarrow> world \<Rightarrow> jsval \<Rightarrow> response comp" where
  "distinct_try cfg w body =
     and_then (connectToMongo cfg w) (\<lambda>_.
     and_then (await (destructure body ''collection'')) (\<lambda>collection.
     and_then (await (destructure body ''field'')) (\<lambda>field.
     and_then (await (destructure body ''query'')) (\<lambda>q.
     and_then (emit (ConsoleLog ''[DISTINCT] Collection, Field, Query:''
                 [collection, field, or_default q (JObj [])])) (\<lambda>_.
     and_then (get_db ''collection'') (\<lambda>d.
     and_then (call (db_collection w d collection)) (\<lambda>_.
     and_then (await (coll_distinct w (Collection d collection) field
                 (or_default q (JObj [])))) (\<lambda>values.
     and_then (emit (ConsoleLog ''[DISTINCT] Success: unique values''
                 [JNum (of_nat (length values))])) (\<lambda>_.
     res_json (JArr values))))))))))"

definition distinct_handler :: "config \<Rightarrow> world \<Rightarrow> jsval \<Rightarrow> response comp" where
  "distinct_handler cfg w body =
     try_catch (distinct_try cfg w body) (catch_detailed ''[DISTINCT] Error:'')"

definition insertOne_try :: "config \<Rightarrow> world \<Rightarrow> jsval \<Rightarrow> response comp" where
  "insertOne_try cfg w body =
     and_then (connectToMongo cfg w) (\<lambda>_.
     and_then (await (destructure body ''collection'')) (\<lambda>collection.
     and_then (await (destructure body ''document'')) (\<lambda>document.
     and_then (get_db ''collection'') (\<lambda>d.
     and_then (call (db_collection w d collection)) (\<lambda>_.
     and_then (await (coll_insertOne w (Collection d collection) document)) (\<lambda>result.
     res_json result))))))"

definition insertOne_handler :: "config \<Rightarrow> world \<Rightarrow> jsval \<Rightarrow> response comp" where
  "insertOne_handler cfg w body =
     try_catch (insertOne_try cfg w body) (catch_plain ''InsertOne error:'')"

definition insertMany_try :: "config \<Rightarrow> world \<Rightarrow> jsval \<Rightarrow> response comp" where
  "insertMany_try cfg w body =
     and_then (connectToMongo cfg w) (\<lambda>_.
     and_then (await (destructure body ''collection'')) (\<lambda>collection.
     and_then (await (destructure body ''documents'')) (\<lambda>documents.
     and_then (get_db ''collection'') (\<lambda>d.
     and_then (call (db_collection w d collection)) (\<lambda>_.
     and_then (await (coll_insertMany w (Collection d collection) documents)) (\<lambda>result.
     res_json result))))))"

definition insertMany_handler :: "config \<Rightarrow> world \<Rightarrow> jsval \<Rightarrow> response comp" where
  "insertMany_handler cfg w body =
     try_catch (insertMany_try cfg w body) (catch_plain ''InsertMany error:'')"

section \<open>Routing, startup and shutdown\<close>

datatype data_op = Query | Aggregate | Count | Distinct | InsertOne | InsertMany

datatype endpoint = Health | Diagnose | Data data_op

fun data_try :: "data_op \<Rightarrow> config \<Rightarrow> world \<Rightarrow> jsval \<Rightarrow> response comp" where
  "data_try Query = query_try"
| "data_try Aggregate = aggregate_try"
| "data_try Count = count_try"
| "data_try Distinct = distinct_try"
| "data_try InsertOne = insertOne_try"
| "data_try InsertMany = insertMany_try"

fun data_handler :: "data_op \<Rightarrow> config \<Rightarrow> world \<Rightarrow> jsval \<Rightarrow> response comp" where
  "data_handler Query = query_handler"
| "data_handler Aggregate = aggregate_handler"
| "data_handler Count = count_handler"
| "data_handler Distinct = distinct_handler"
| "data_handler InsertOne = insertOne_handler"
| "data_handler InsertMany = insertMany_handler"

fun handle :: "endpoint \<Rightarrow> config \<Rightarrow> world \<Rightarrow> jsval \<Rightarrow> response comp" where
  "handle Health cfg w body = health_handler cfg w"
| "handle Diagnose cfg w body = diagnose_handler cfg w"
| "handle (Data op) cfg w body = data_handler op cfg w body"

text \<open>The configuration: \<open>process.env.PORT || 3000\<close>, \<open>process.env.MONGODB_URI\<close>,
  \<open>process.env.DATABASE || 'Saica'\<close>.  An environment variable is a string or absent.\<close>

definition load_config :: "(string \<rightharpoonup> string) \<Rightarrow> config" where
  "load_config env =
     \<lparr>PORT = (case env ''PORT'' of
                None \<Rightarrow> JNum 3000
              | Some p \<Rightarrow> if p = [] then JNum 3000 else JStr p),
      MONGODB_URI = env ''MONGODB_URI'',
      DATABASE = (case env ''DATABASE'' of
                    None \<Rightarrow> ''Saica''
                  | Some d \<Rightarrow> if d = [] then ''Saica'' else d)\<rparr>"

text \<open>The callback of \<open>app.listen\<close>: a banner of five lines (two of them rules), then a
  first \<open>connectToMongo\<close> whose failure is logged and goes no further.\<close>

definition listen_callback :: "config \<Rightarrow> world \<Rightarrow> unit comp" where
  "listen_callback cfg w =
     and_then (emit (ConsoleLog ''MongoDB Proxy Server'' [])) (\<lambda>_.
     and_then (emit (ConsoleLog ''(rule)'' [])) (\<lambda>_.
     and_then (emit (ConsoleLog ''Running on: http://localhost:'' [PORT cfg])) (\<lambda>_.
     and_then (emit (ConsoleLog ''Database:'' [JStr (DATABASE cfg)])) (\<lambda>_.
     and_then (emit (ConsoleLog ''(rule)'' [])) (\<lambda>_.
     try_catch
       (and_then (connectToMongo cfg w) (\<lambda>_.
        emit (ConsoleLog ''MongoDB connection verified'' [])))
       (\<lambda>error.
        and_then (emit (ConsoleError ''Failed to connect to MongoDB:'' [JStr (err_message error)])) (\<lambda>_.
        emit (ConsoleError ''Check your MONGODB_URI'' []))))))))"

text \<open>The module body, from the first line to the end of the \<open>app.listen\<close> callback.
  \<open>process.exit(1)\<close> ends the process at once: nothing after it runs.\<close>

definition main :: "(string \<rightharpoonup> string) \<Rightarrow> world \<Rightarrow> pstate" where
  "main env w =
     (if \<not> str_truthy (MONGODB_URI (load_config env))
      then init_state\<lparr>events :=
             [ConsoleError ''ERROR: MONGODB_URI environment variable is required!'' [],
              ConsoleError ''Set it in your Render dashboard or .env file'' [],
              Exit 1]\<rparr>
      else snd (and_then (emit (Listen (PORT (load_config env))))
                  (\<lambda>_. listen_callback (load_config env) w) init_state))"

text \<open>The \<open>SIGINT\<close> handler closes the client, when there is one, and exits with 0.\<close>

definition sigint_handler :: "world \<Rightarrow> unit comp" where
  "sigint_handler w s =
     and_then (emit (ConsoleLog ''Shutting down...'' [])) (\<lambda>_.
     and_then
       (case mongoClient s of
          None \<Rightarrow> succeed ()
        | Some c \<Rightarrow>
            and_then (emit (CloseCalled c)) (\<lambda>_.
            and_then (call (client_close w c)) (\<lambda>_.
            emit (ConsoleLog ''MongoDB connection closed'' [])))) (\<lambda>_.
     emit (Exit 0))) s"

text \<open>The life of the process after startup: requests and signals, handled one after
  the other (each handler runs to its end before the next starts; handlers interleaved
  at their \<open>await\<close> points are not modelled).  A process that has exited handles nothing
  more.\<close>

datatype input = Request endpoint world jsval | Sigint world

fun is_Exit :: "event \<Rightarrow> bool" where
  "is_Exit (Exit n) = True"
| "is_Exit _ = False"

fun is_ClientCreated :: "event \<Rightarrow> bool" where
  "is_ClientCreated (ClientCreated c) = True"
| "is_ClientCreated _ = False"

fun is_ConnectCalled :: "event \<Rightarrow> bool" where
  "is_ConnectCalled (ConnectCalled c) = True"
| "is_ConnectCalled _ = False"

fun is_CloseCalled :: "event \<Rightarrow> bool" where
  "is_CloseCalled (CloseCalled c) = True"
| "is_CloseCalled _ = False"

fun is_Listen :: "event \<Rightarrow> bool" where
  "is_Listen (Listen p) = True"
| "is_Listen _ = False"

fun is_Sigint :: "input \<Rightarrow> bool" where
  "is_Sigint (Sigint w) = True"
| "is_Sigint _ = False"

definition exited :: "pstate \<Rightarrow> bool" where
  "exited s = list_ex is_Exit (events s)"

fun step :: "config \<Rightarrow> pstate \<Rightarrow> input \<Rightarrow> pstate" where
  "step cfg s (Request ep w body) = (if exited s then s else snd (handle ep cfg w body s))"
| "step cfg s (Sigint w) = (if exited s then s else snd (sigint_handler w s))"

definition run :: "config \<Rightarrow> input list \<Rightarrow> pstate \<Rightarrow> pstate" where
  "run cfg ins s = foldl (step cfg) s ins"

text \<open>How many handles were created, and how many times \<open>connect\<close> was called.\<close>

definition created :: "pstate \<Rightarrow> nat" where
  "created s = length (filter is_ClientCreated (events s))"

definition connects :: "pstate \<Rightarrow> nat" where
  "connects s = length (filter is_ConnectCalled (events s))"

definition closes :: "pstate \<Rightarrow> nat" where
  "closes s = length (filter is_CloseCalled (events s))"

section \<open>Notions used to state the properties\<close>








text \<open>What a piece of handler code may do to the connection state: it closes nothing,
  does not exit, leaves \<open>db\<close> as it is once there is a client, and either leaves the
  client and the counts of created handles and \<open>connect\<close> calls as they are, or
  creates the one client while there was none.\<close>

definition lifecycle_step :: "pstate \<Rightarrow> pstate \<Rightarrow> bool" where
  "lifecycle_step s s' =
     ((mongoClient s = None \<or> db s' = db s)
      \<and> closes s' = closes s
      \<and> exited s' = exited s
      \<and> ((mongoClient s' = mongoClient s \<and> created s' = created s \<and> connects s' = connects s)
         \<or> (mongoClient s = None \<and> mongoClient s' \<noteq> None
             \<and> created s' = created s + 1 \<and> connects s' = connects s + 1)))"

definition lifecycle_safe :: "'a comp \<Rightarrow> bool" where
  "lifecycle_safe m = (\<forall>s. lifecycle_step s (snd (m s)))"

definition handle_inv :: "pstate \<Rightarrow> bool" where
  "handle_inv s =
     (created s \<le> 1 \<and> connects s \<le> 1
      \<and> (mongoClient s = None \<longrightarrow> created s = 0 \<and> connects s = 0))"

section \<open>Example configuration and worlds\<close>

text \<open>A reachable database (\<open>world_up\<close>), one that refuses the connection
  (\<open>world_down\<close>), and a configuration, used to run the handlers on concrete inputs.\<close>

definition world_up :: world where
  "world_up =
     \<lparr>date_now = ''2024-01-01T00:00:00.000Z'',
      node_version = ''v18.0.0'',
      new_MongoClient = (\<lambda>_. None),
      client_connect = (\<lambda>_. None),
      client_db = (\<lambda>_ _. None),
      client_close = (\<lambda>_. None),
      admin_ping = (\<lambda>_. None),
      db_listCollections = (\<lambda>_. Inr [JObj [(''name'', JStr ''network_tests'')]]),
      db_collection = (\<lambda>_ _. None),
      coll_countDocuments = (\<lambda>_ _. Inr 2),
      coll_findOne = (\<lambda>_. Inr (JObj [(''n'', JNum 1)])),
      coll_find = (\<lambda>_ _. None),
      cursor_apply = (\<lambda>_ _. None),
      cursor_toArray = (\<lambda>_. Inr [JObj [(''n'', JNum 1)], JObj [(''n'', JNum 2)]]),
      coll_aggregate = (\<lambda>_ _. Inr []),
      coll_distinct = (\<lambda>_ _ _. Inr [JNum 1, JNum 2]),
      coll_insertOne = (\<lambda>_ _. Inr (JObj [(''acknowledged'', JBool True)])),
      coll_insertMany = (\<lambda>_ _. Inr (JObj [(''acknowledged'', JBool True)]))\<rparr>"

definition econnrefused :: js_error where
  "econnrefused = JsError ''connect ECONNREFUSED'' JUndefined"

definition world_down :: world where
  "world_down = world_up\<lparr>client_connect := (\<lambda>_. Some econnrefused)\<rparr>"

definition cfg_example :: config where
  "cfg_example =
     \<lparr>PORT = JNum 3000,
      MONGODB_URI = Some ''mongodb://u:p@db.example.com/x'',
      DATABASE = ''Saica''\<rparr>"

definition client_example :: client where
  "client_example = MongoClient (Some ''mongodb://u:p@db.example.com/x'')"

definition env_example :: "string \<rightharpoonup> string" where
  "env_example = [''MONGODB_URI'' \<mapsto> ''mongodb://u:p@db.example.com/x'']"

definition db_example :: dbh where
  "db_example = Db client_example ''Saica''"

text \<open>The state of a process whose first \<open>connectToMongo\<close> succeeded.\<close>

definition state_connected :: pstate where
  "state_connected =
     \<lparr>mongoClient = Some client_example, db = Some db_example,
      events = [ConsoleLog ''Connecting to MongoDB...'' [],
                ClientCreated client_example,
                ConnectCalled client_example,
                ConsoleLog ''Connected to MongoDB'' []]\<rparr>"

definition ping_timeout :: js_error where
  "ping_timeout = JsError ''ping timed out'' (JNum 89)"

definition world_ping_fails :: world where
  "world_ping_fails = world_up\<lparr>admin_ping := (\<lambda>_. Some ping_timeout)\<rparr>"

text \<open>A world whose data primitives all fail with a server error that carries a code.\<close>

definition duplicate_key :: js_error where
  "duplicate_key = JsError ''E11000 duplicate key error collection'' (JNum 11000)"

definition world_ops_fail :: world where
  "world_ops_fail =
     world_up\<lparr>coll_countDocuments := (\<lambda>_ _. Inl duplicate_key),
              cursor_toArray := (\<lambda>_. Inl duplicate_key),
              coll_aggregate := (\<lambda>_ _. Inl duplicate_key),
              coll_distinct := (\<lambda>_ _ _. Inl duplicate_key),
              coll_insertOne := (\<lambda>_ _. Inl duplicate_key),
              coll_insertMany := (\<lambda>_ _. Inl duplicate_key)\<rparr>"





definition body_example :: jsval where
  "body_example = JObj [(''collection'', JStr ''users''), (''query'', JObj [(''age'', JNum 42)])]"

text \<open>The facts that show a computation to respect the life of the connection handle.\<close>

named_theorems safe_intros

section \<open>Basic facts about computations\<close>

lemmas comp_defs = succeed_def throw_def and_then_def try_catch_def emit_def call_def await_def
  set_mongoClient_def set_db_def res_json_def res_status_json_def get_db_def

lemmas example_defs = cfg_example_def world_up_def world_down_def world_ping_fails_def
  init_state_def client_example_def db_example_def econnrefused_def ping_timeout_def
  state_connected_def env_example_def body_example_def duplicate_key_def world_ops_fail_def


lemma and_then_fails: "fst (m s) = Inl e \<Longrightarrow> fst (and_then m f s) = Inl e"
  by (cases "m s") (auto simp: and_then_def split: sum.splits)

lemma try_catch_fst:
  "fst (try_catch m h s) = (case fst (m s) of Inl e \<Rightarrow> fst (h e (snd (m s))) | Inr x \<Rightarrow> Inr x)"
  by (simp add: try_catch_def split: prod.splits sum.splits)


section \<open>The connection manager: activation\<close>

lemma connectToMongo_noop: "mongoClient s \<noteq> None \<Longrightarrow> connectToMongo cfg w s = (Inr (), s)"
  by (simp add: connectToMongo_def)

lemma connectToMongo_fresh:
  assumes "mongoClient s = None" "new_MongoClient w (MONGODB_URI cfg) = None"
  shows "mongoClient (snd (connectToMongo cfg w s)) = Some (MongoClient (MONGODB_URI cfg))
       \<and> connects (snd (connectToMongo cfg w s)) = connects s + 1"
  using assms
  by (simp add: connectToMongo_def comp_defs connects_def split: option.splits)

lemma connectToMongo_connects:
  "connects (snd (connectToMongo cfg w s)) = connects s
   \<or> (connects (snd (connectToMongo cfg w s)) = connects s + 1
       \<and> mongoClient (snd (connectToMongo cfg w s)) \<noteq> None)"
  by (simp add: connectToMongo_def comp_defs connects_def split: option.splits)

lemma state_connected_eq: "snd (connectToMongo cfg_example world_up init_state) = state_connected"
  by (simp add: connectToMongo_def comp_defs example_defs)

text \<open>
  C1.  The claim: when establishing the connection fails inside \<open>connectToMongo\<close>, the
  error reaches the caller unmodified and the handle stays unestablished, so that a
  later call makes a fresh connection attempt.  The code at the failing input: on a
  fresh process whose server refuses the connection, the first call throws the
  driver's error unchanged and leaves \<open>db\<close> unset, but \<open>mongoClient\<close> is already
  assigned; the second call, with the server reachable again, returns at once without
  calling \<open>connect\<close>, and \<open>db\<close> stays unset.
\<close>

theorem connectToMongo_no_retry_after_failed_connect:
  "connectToMongo cfg_example world_down init_state =
     (Inl econnrefused,
      \<lparr>mongoClient = Some client_example, db = None,
       events = [ConsoleLog ''Connecting to MongoDB...'' [],
                 ClientCreated client_example,
                 ConnectCalled client_example,
                 ConsoleError ''MongoDB connection error:'' [JStr ''connect ECONNREFUSED'']]\<rparr>)
   \<and> connectToMongo cfg_example world_up (snd (connectToMongo cfg_example world_down init_state)) =
     (Inr (), snd (connectToMongo cfg_example world_down init_state))
   \<and> connects (snd (connectToMongo cfg_example world_up
        (snd (connectToMongo cfg_example world_down init_state)))) = 1
   \<and> db (snd (connectToMongo cfg_example world_up
        (snd (connectToMongo cfg_example world_down init_state)))) = None"
  by (simp add: connectToMongo_def comp_defs example_defs connects_def)

text \<open>
  C2.  Activation is idempotent.  With a client already there, \<open>connectToMongo\<close> returns
  at once and changes nothing, not even the console.  Two calls in a row make at most
  one call of \<open>connect\<close>, whatever the driver answers; on a process without a client
  whose constructor call returns, the first call makes exactly one and the second is a
  no-op.
\<close>

theorem connectToMongo_idempotent:
  "(mongoClient s \<noteq> None \<longrightarrow> connectToMongo cfg w s = (Inr (), s))
   \<and> connects (snd (connectToMongo cfg w2 (snd (connectToMongo cfg w1 s)))) \<le> connects s + 1
   \<and> (mongoClient s = None \<and> new_MongoClient w1 (MONGODB_URI cfg) = None \<longrightarrow>
        connects (snd (connectToMongo cfg w1 s)) = connects s + 1
        \<and> connectToMongo cfg w2 (snd (connectToMongo cfg w1 s)) =
            (Inr (), snd (connectToMongo cfg w1 s)))"
proof (intro conjI impI)
  assume "mongoClient s \<noteq> None"
  then show "connectToMongo cfg w s = (Inr (), s)" by (rule connectToMongo_noop)
next
  let ?s1 = "snd (connectToMongo cfg w1 s)"
  show "connects (snd (connectToMongo cfg w2 ?s1)) \<le> connects s + 1"
  proof (cases "mongoClient ?s1 = None")
    case False
    then have "connectToMongo cfg w2 ?s1 = (Inr (), ?s1)" by (rule connectToMongo_noop)
    then show ?thesis using connectToMongo_connects [of cfg w1 s] by auto
  next
    case True
    then have "connects ?s1 = connects s"
      using connectToMongo_connects [of cfg w1 s] by auto
    then show ?thesis using connectToMongo_connects [of cfg w2 ?s1] by auto
  qed
next
  assume a: "mongoClient s = None \<and> new_MongoClient w1 (MONGODB_URI cfg) = None"
  then show "connects (snd (connectToMongo cfg w1 s)) = connects s + 1"
    using connectToMongo_fresh [of s w1 cfg] by simp
  from a have "mongoClient (snd (connectToMongo cfg w1 s)) \<noteq> None"
    using connectToMongo_fresh [of s w1 cfg] by simp
  then show "connectToMongo cfg w2 (snd (connectToMongo cfg w1 s)) =
      (Inr (), snd (connectToMongo cfg w1 s))"
    by (rule connectToMongo_noop)
qed

theorem connectToMongo_idempotent_witness:
  "mongoClient init_state = None
   \<and> new_MongoClient world_up (MONGODB_URI cfg_example) = None
   \<and> connects (snd (connectToMongo cfg_example world_up init_state)) = 1
   \<and> connectToMongo cfg_example world_up (snd (connectToMongo cfg_example world_up init_state))
       = (Inr (), state_connected)
   \<and> mongoClient state_connected \<noteq> None
   \<and> connectToMongo cfg_example world_down state_connected = (Inr (), state_connected)"
proof -
  have h: "mongoClient init_state = None \<and> new_MongoClient world_up (MONGODB_URI cfg_example) = None"
    by (simp add: example_defs)
  have k: "mongoClient state_connected \<noteq> None" by (simp add: example_defs)
  have c: "connects init_state = 0" by (simp add: connects_def example_defs)
  show ?thesis
    using h k c
      connectToMongo_idempotent [of init_state cfg_example world_up world_up world_up]
      connectToMongo_idempotent [of state_connected cfg_example world_down world_up world_up]
    by (simp add: state_connected_eq)
qed

section \<open>The data operations: failures\<close>

lemma catch_detailed_fst:
  "fst (catch_detailed tag e s) =
     Inr \<lparr>res_status = 500,
          res_body = JObj [(''error'', JStr (err_message e)), (''code'', err_code e),
                           (''details'', JStr ''Check server logs for more information'')]\<rparr>"
  by (simp add: catch_detailed_def comp_defs)

lemma catch_plain_fst:
  "fst (catch_plain tag e s) =
     Inr \<lparr>res_status = 500, res_body = JObj [(''error'', JStr (err_message e))]\<rparr>"
  by (simp add: catch_plain_def comp_defs)

lemma data_try_connect_fails:
  "fst (connectToMongo cfg w s) = Inl e \<Longrightarrow> fst (data_try op cfg w body s) = Inl e"
  by (cases op)
     (simp_all add: query_try_def aggregate_try_def count_try_def distinct_try_def
        insertOne_try_def insertMany_try_def and_then_fails)

lemma data_handler_fst:
  "fst (data_handler op cfg w body s) =
     (case fst (data_try op cfg w body s) of
        Inl e \<Rightarrow>
          Inr \<lparr>res_status = 500,
               res_body =
                 (if op = InsertOne \<or> op = InsertMany
                  then JObj [(''error'', JStr (err_message e))]
                  else JObj [(''error'', JStr (err_message e)), (''code'', err_code e),
                             (''details'', JStr ''Check server logs for more information'')])\<rparr>
      | Inr r \<Rightarrow> Inr r)"
  by (cases op)
     (simp_all add: query_handler_def aggregate_handler_def count_handler_def
        distinct_handler_def insertOne_handler_def insertMany_handler_def
        try_catch_fst catch_detailed_fst catch_plain_fst split: sum.splits)

lemma connect_down: "fst (connectToMongo cfg_example world_down init_state) = Inl econnrefused"
  by (simp add: connectToMongo_def comp_defs example_defs)

lemma find_ops_fail:
  "find_documents world_ops_fail cl q (JObj []) s = (Inl duplicate_key, s)"
  by (simp add: find_documents_def apply_if_truthy_def comp_defs world_ops_fail_def world_up_def)

lemma ops_fail_collection: "db_collection world_ops_fail d c = None"
  by (simp add: world_ops_fail_def world_up_def)

lemma ops_fail_insertMany: "coll_insertMany world_ops_fail cl docs = Inl duplicate_key"
  by (simp add: world_ops_fail_def world_up_def)

lemma query_ops_fail:
  "fst (data_try Query cfg_example world_ops_fail body_example state_connected) = Inl duplicate_key"
  by (simp add: query_try_def connectToMongo_def destructure_def or_default_def find_ops_fail
      and_then_def await_def emit_def get_db_def call_def state_connected_def body_example_def
      ops_fail_collection)

lemma insertMany_ops_fail:
  "fst (data_try InsertMany cfg_example world_ops_fail body_example state_connected)
     = Inl duplicate_key"
  by (simp add: insertMany_try_def connectToMongo_def destructure_def
      and_then_def await_def get_db_def call_def state_connected_def body_example_def
      ops_fail_collection ops_fail_insertMany)



text \<open>
  C8.  The shape of the failure answers: when the \<open>try\<close> block of \<open>/query\<close>,
  \<open>/aggregate\<close>, \<open>/count\<close> or \<open>/distinct\<close> throws, the handler answers 500 with the
  object \<open>{error, code, details}\<close>, where \<open>code\<close> is the \<open>code\<close> of the error; when that
  of \<open>/insertOne\<close> or \<open>/insertMany\<close> throws, it answers 500 with \<open>{error}\<close> alone.
\<close>

theorem error_body_shapes:
  "fst (data_try op cfg w body s) = Inl e \<Longrightarrow>
     fst (data_handler op cfg w body s) =
       Inr \<lparr>res_status = 500,
            res_body =
              (if op \<in> {Query, Aggregate, Count, Distinct}
               then JObj [(''error'', JStr (err_message e)), (''code'', err_code e),
                          (''details'', JStr ''Check server logs for more information'')]
               else JObj [(''error'', JStr (err_message e))])\<rparr>"
  using data_handler_fst [of op cfg w body s] by (cases op) simp_all

theorem error_body_shapes_witness:
  "fst (data_try Query cfg_example world_ops_fail body_example state_connected) = Inl duplicate_key
   \<and> fst (data_handler Query cfg_example world_ops_fail body_example state_connected) =
       Inr \<lparr>res_status = 500,
            res_body = JObj [(''error'', JStr ''E11000 duplicate key error collection''),
                             (''code'', JNum 11000),
                             (''details'', JStr ''Check server logs for more information'')]\<rparr>
   \<and> fst (data_try InsertMany cfg_example world_ops_fail body_example state_connected)
        = Inl duplicate_key
   \<and> fst (data_handler InsertMany cfg_example world_ops_fail body_example state_connected) =
       Inr \<lparr>res_status = 500,
            res_body = JObj [(''error'', JStr ''E11000 duplicate key error collection'')]\<rparr>
   \<and> fst (data_try Count cfg_example world_down body_example init_state) = Inl econnrefused
   \<and> fst (data_handler Count cfg_example world_down body_example init_state) =
       Inr \<lparr>res_status = 500,
            res_body = JObj [(''error'', JStr ''connect ECONNREFUSED''), (''code'', JUndefined),
                             (''details'', JStr ''Check server logs for more information'')]\<rparr>"
proof -
  have c: "fst (data_try Count cfg_example world_down body_example init_state) = Inl econnrefused"
    by (rule data_try_connect_fails [OF connect_down])
  show ?thesis
    using c query_ops_fail insertMany_ops_fail
      error_body_shapes [OF c] error_body_shapes [OF query_ops_fail]
      error_body_shapes [OF insertMany_ops_fail]
    by (simp add: econnrefused_def duplicate_key_def)
qed

section \<open>The health check and the diagnostic endpoint\<close>

lemma health_handler_snd: "snd (health_handler cfg w s) = s"
  by (simp add: health_handler_def comp_defs Let_def split: option.splits prod.splits)

















text \<open>
  C10.  \<open>GET /health\<close> leaves the process state exactly as it was, in both versions of
  the module: it does not call \<open>connectToMongo\<close>, so \<open>mongoClient\<close>, \<open>db\<close> and the record
  of connection attempts are unchanged.  While \<open>db\<close> is unset, as on a process that has
  never connected, it answers 200 with status \<open>ok\<close> and \<open>connected: false\<close>.
\<close>

theorem health_leaves_connection_state:
  "snd (health_handler cfg w s) = s
   \<and> snd (health_handler_v1 cfg w s) = s
   \<and> (db s = None \<longrightarrow>
        fst (health_handler cfg w s) =
          Inr \<lparr>res_status = 200,
               res_body = JObj [(''status'', JStr ''ok''), (''connected'', JBool False),
                                (''database'', JStr (DATABASE cfg)),
                                (''timestamp'', JStr (date_now w))]\<rparr>
        \<and> fst (health_handler_v1 cfg w s) =
          Inr \<lparr>res_status = 200,
               res_body = JObj [(''status'', JStr ''ok''), (''connected'', JBool False),
                                (''database'', JStr (DATABASE cfg))]\<rparr>)"
proof (intro conjI impI)
  show "snd (health_handler cfg w s) = s" by (rule health_handler_snd)
  show "snd (health_handler_v1 cfg w s) = s" by (simp add: health_handler_v1_def comp_defs)
next
  assume "db s = None"
  then show "fst (health_handler cfg w s) =
          Inr \<lparr>res_status = 200,
               res_body = JObj [(''status'', JStr ''ok''), (''connected'', JBool False),
                                (''database'', JStr (DATABASE cfg)),
                                (''timestamp'', JStr (date_now w))]\<rparr>"
    by (simp add: health_handler_def health_start_def comp_defs)
next
  assume "db s = None"
  then show "fst (health_handler_v1 cfg w s) =
          Inr \<lparr>res_status = 200,
               res_body = JObj [(''status'', JStr ''ok''), (''connected'', JBool False),
                                (''database'', JStr (DATABASE cfg))]\<rparr>"
    by (simp add: health_handler_v1_def comp_defs)
qed

theorem health_leaves_connection_state_witness:
  "db init_state = None
   \<and> health_handler cfg_example world_up init_state =
       (Inr \<lparr>res_status = 200,
             res_body = JObj [(''status'', JStr ''ok''), (''connected'', JBool False),
                              (''database'', JStr ''Saica''),
                              (''timestamp'', JStr ''2024-01-01T00:00:00.000Z'')]\<rparr>,
        init_state)
   \<and> health_handler_v1 cfg_example world_up init_state =
       (Inr \<lparr>res_status = 200,
             res_body = JObj [(''status'', JStr ''ok''), (''connected'', JBool False),
                              (''database'', JStr ''Saica'')]\<rparr>,
        init_state)
   \<and> connects (snd (health_handler cfg_example world_up init_state)) = 0"
proof -
  have d: "db init_state = None" by (simp add: example_defs)
  have c: "connects init_state = 0" by (simp add: connects_def example_defs)
  show ?thesis
    using d c health_leaves_connection_state [of cfg_example world_up init_state]
    by (simp add: prod_eq_iff cfg_example_def world_up_def)
qed

section \<open>Startup\<close>

text \<open>
  C9.  Without a usable \<open>MONGODB_URI\<close> (absent, or the empty string) the process prints
  two error lines and exits with code 1, and no listener is opened.  With it, the
  first thing the process does is listen on the configured port, and startup does not
  exit, whether or not the first connection succeeds.
\<close>

theorem startup_requires_uri:
  "(\<not> str_truthy (env ''MONGODB_URI'') \<longrightarrow>
      events (main env w) =
        [ConsoleError ''ERROR: MONGODB_URI environment variable is required!'' [],
         ConsoleError ''Set it in your Render dashboard or .env file'' [],
         Exit 1]
      \<and> \<not> list_ex is_Listen (events (main env w)))
   \<and> (str_truthy (env ''MONGODB_URI'') \<longrightarrow>
      hd (events (main env w)) = Listen (PORT (load_config env))
      \<and> \<not> exited (main env w))"
proof (intro conjI impI)
  assume a: "\<not> str_truthy (env ''MONGODB_URI'')"
  then show "events (main env w) =
        [ConsoleError ''ERROR: MONGODB_URI environment variable is required!'' [],
         ConsoleError ''Set it in your Render dashboard or .env file'' [],
         Exit 1]"
    by (simp add: main_def load_config_def)
  then show "\<not> list_ex is_Listen (events (main env w))" by simp
next
  assume a: "str_truthy (env ''MONGODB_URI'')"
  have m: "main env w = snd (listen_callback (load_config env) w
             (init_state\<lparr>events := [Listen (PORT (load_config env))]\<rparr>))"
    using a by (simp add: main_def load_config_def and_then_def emit_def init_state_def)
  show "hd (events (main env w)) = Listen (PORT (load_config env))"
    unfolding m
    by (simp add: listen_callback_def connectToMongo_def comp_defs init_state_def
        split: option.splits)
  show "\<not> exited (main env w)"
    unfolding m
    by (simp add: listen_callback_def connectToMongo_def comp_defs init_state_def exited_def
        split: option.splits)
qed

theorem startup_requires_uri_witness:
  "\<not> str_truthy (Map.empty ''MONGODB_URI'')
   \<and> events (main Map.empty world_up) =
        [ConsoleError ''ERROR: MONGODB_URI environment variable is required!'' [],
         ConsoleError ''Set it in your Render dashboard or .env file'' [],
         Exit 1]
   \<and> str_truthy (env_example ''MONGODB_URI'')
   \<and> hd (events (main env_example world_down)) = Listen (JNum 3000)
   \<and> \<not> exited (main env_example world_down)"
proof -
  have a: "\<not> str_truthy (Map.empty ''MONGODB_URI'')" by (simp add: str_truthy_def)
  have b: "str_truthy (env_example ''MONGODB_URI'')" by (simp add: str_truthy_def env_example_def)
  have p: "PORT (load_config env_example) = JNum 3000"
    by (simp add: load_config_def env_example_def)
  show ?thesis
    using a b p startup_requires_uri [of Map.empty world_up]
      startup_requires_uri [of env_example world_down]
    by simp
qed

section \<open>The find options\<close>




















section \<open>The single connection handle\<close>

lemma lifecycle_step_refl: "lifecycle_step s s"
  by (simp add: lifecycle_step_def)

lemma lifecycle_step_trans:
  "lifecycle_step s t \<Longrightarrow> lifecycle_step t u \<Longrightarrow> lifecycle_step s u"
  unfolding lifecycle_step_def by (elim conjE disjE) simp_all

lemma safe_succeed [safe_intros]: "lifecycle_safe (succeed x)"
  by (simp add: lifecycle_safe_def succeed_def lifecycle_step_refl)

lemma safe_throw [safe_intros]: "lifecycle_safe (throw e)"
  by (simp add: lifecycle_safe_def throw_def lifecycle_step_refl)

lemma safe_call [safe_intros]: "lifecycle_safe (call r)"
  by (simp add: lifecycle_safe_def call_def lifecycle_step_refl split: option.splits)

lemma safe_await [safe_intros]: "lifecycle_safe (await r)"
  by (simp add: lifecycle_safe_def await_def lifecycle_step_refl split: sum.splits)

lemma safe_get_db [safe_intros]: "lifecycle_safe (get_db k)"
  by (simp add: lifecycle_safe_def get_db_def lifecycle_step_refl split: option.splits)

lemma safe_res_json [safe_intros]: "lifecycle_safe (res_json x)"
  by (simp add: res_json_def safe_succeed)

lemma safe_res_status_json [safe_intros]: "lifecycle_safe (res_status_json n x)"
  by (simp add: res_status_json_def safe_succeed)

lemma safe_emit:
  "\<not> is_ClientCreated ev \<Longrightarrow> \<not> is_ConnectCalled ev \<Longrightarrow> \<not> is_CloseCalled ev \<Longrightarrow> \<not> is_Exit ev
   \<Longrightarrow> lifecycle_safe (emit ev)"
  by (simp add: lifecycle_safe_def emit_def lifecycle_step_def created_def connects_def
      closes_def exited_def)

lemma safe_emit_log [safe_intros]: "lifecycle_safe (emit (ConsoleLog t vs))"
  by (simp add: safe_emit)

lemma safe_emit_error [safe_intros]: "lifecycle_safe (emit (ConsoleError t vs))"
  by (simp add: safe_emit)

lemma safe_emit_listen [safe_intros]: "lifecycle_safe (emit (Listen p))"
  by (simp add: safe_emit)

lemma safe_and_then [safe_intros]:
  assumes "lifecycle_safe m" "\<And>x. lifecycle_safe (f x)"
  shows "lifecycle_safe (and_then m f)"
  unfolding lifecycle_safe_def
proof
  fix s
  show "lifecycle_step s (snd (and_then m f s))"
  proof (cases "m s")
    case (Pair r s')
    have a: "lifecycle_step s s'"
      using assms(1) Pair by (auto simp: lifecycle_safe_def dest: spec [of _ s])
    show ?thesis
    proof (cases r)
      case (Inl e)
      then show ?thesis using Pair a by (simp add: and_then_def)
    next
      case (Inr x)
      have "lifecycle_step s' (snd (f x s'))" using assms(2) by (simp add: lifecycle_safe_def)
      then show ?thesis using Pair Inr by (simp add: and_then_def lifecycle_step_trans [OF a])
    qed
  qed
qed

lemma safe_try_catch [safe_intros]:
  assumes "lifecycle_safe m" "\<And>e. lifecycle_safe (h e)"
  shows "lifecycle_safe (try_catch m h)"
  unfolding lifecycle_safe_def
proof
  fix s
  show "lifecycle_step s (snd (try_catch m h s))"
  proof (cases "m s")
    case (Pair r s')
    have a: "lifecycle_step s s'"
      using assms(1) Pair by (auto simp: lifecycle_safe_def dest: spec [of _ s])
    show ?thesis
    proof (cases r)
      case (Inr x)
      then show ?thesis using Pair a by (simp add: try_catch_def)
    next
      case (Inl e)
      have "lifecycle_step s' (snd (h e s'))" using assms(2) by (simp add: lifecycle_safe_def)
      then show ?thesis using Pair Inl by (simp add: try_catch_def lifecycle_step_trans [OF a])
    qed
  qed
qed

lemma safe_connectToMongo [safe_intros]: "lifecycle_safe (connectToMongo cfg w)"
  unfolding lifecycle_safe_def
  by (simp add: connectToMongo_def comp_defs lifecycle_step_def created_def connects_def
      closes_def exited_def split: option.splits)

lemma safe_apply_if_truthy [safe_intros]: "lifecycle_safe (apply_if_truthy w f v cur)"
  by (simp add: apply_if_truthy_def safe_intros)

lemma safe_find_documents [safe_intros]: "lifecycle_safe (find_documents w cl q opts)"
  unfolding find_documents_def by (intro safe_intros)

lemma safe_catch_detailed [safe_intros]: "lifecycle_safe (catch_detailed tag e)"
  unfolding catch_detailed_def by (intro safe_intros)

lemma safe_catch_plain [safe_intros]: "lifecycle_safe (catch_plain tag e)"
  unfolding catch_plain_def by (intro safe_intros)

lemma safe_data_handler: "lifecycle_safe (data_handler op cfg w body)"
proof (cases op)
  case Query
  show ?thesis unfolding Query data_handler.simps query_handler_def query_try_def
    by (intro safe_intros)
next
  case Aggregate
  show ?thesis unfolding Aggregate data_handler.simps aggregate_handler_def aggregate_try_def
    by (intro safe_intros)
next
  case Count
  show ?thesis unfolding Count data_handler.simps count_handler_def count_try_def
    by (intro safe_intros)
next
  case Distinct
  show ?thesis unfolding Distinct data_handler.simps distinct_handler_def distinct_try_def
    by (intro safe_intros)
next
  case InsertOne
  show ?thesis unfolding InsertOne data_handler.simps insertOne_handler_def insertOne_try_def
    by (intro safe_intros)
next
  case InsertMany
  show ?thesis unfolding InsertMany data_handler.simps insertMany_handler_def insertMany_try_def
    by (intro safe_intros)
qed

lemma safe_health: "lifecycle_safe (health_handler cfg w)"
  by (simp add: lifecycle_safe_def health_handler_snd lifecycle_step_refl)

lemma safe_tests:
  "lifecycle_safe (test_ping w)" "lifecycle_safe (test_listCollections w)"
  "lifecycle_safe (test_networkTests w)"
  unfolding test_ping_def test_listCollections_def test_networkTests_def
  by (intro safe_intros)+

lemma safe_diagnose: "lifecycle_safe (diagnose_handler cfg w)"
  unfolding lifecycle_safe_def
proof
  fix s
  obtain r s1 where c: "connectToMongo cfg w s = (r, s1)" by (cases "connectToMongo cfg w s")
  have a: "lifecycle_step s s1"
    using safe_connectToMongo [of cfg w] c by (auto simp: lifecycle_safe_def dest: spec [of _ s])
  show "lifecycle_step s (snd (diagnose_handler cfg w s))"
  proof (cases r)
    case (Inl e)
    then show ?thesis using c a by (simp add: diagnose_handler_def res_json_def succeed_def)
  next
    case (Inr u)
    have "lifecycle_safe
            (and_then (test_ping w) (\<lambda>ping.
             and_then (test_listCollections w) (\<lambda>listCollections.
             and_then (test_networkTests w) (\<lambda>networkTests.
             res_json (diagnostics cfg w s
               [(''connection'', success), (''ping'', ping),
                (''listCollections'', listCollections),
                (''networkTests'', networkTests)])))))"
      by (intro safe_intros safe_tests)
    then show ?thesis using c Inr lifecycle_step_trans [OF a]
      by (simp add: diagnose_handler_def lifecycle_safe_def)
  qed
qed

lemma handle_lifecycle: "lifecycle_step s (snd (handle ep cfg w body s))"
proof (cases ep)
  case Health
  then show ?thesis using safe_health [of cfg w] by (simp add: lifecycle_safe_def)
next
  case Diagnose
  then show ?thesis using safe_diagnose [of cfg w] by (simp add: lifecycle_safe_def)
next
  case (Data op)
  then show ?thesis using safe_data_handler [of op cfg w body] by (simp add: lifecycle_safe_def)
qed

lemma handle_inv_step: "handle_inv s \<Longrightarrow> lifecycle_step s s' \<Longrightarrow> handle_inv s'"
  unfolding handle_inv_def lifecycle_step_def by auto

lemma sigint_frame:
  "mongoClient (snd (sigint_handler w s)) = mongoClient s
   \<and> created (snd (sigint_handler w s)) = created s
   \<and> connects (snd (sigint_handler w s)) = connects s
   \<and> closes (snd (sigint_handler w s)) = closes s + (if mongoClient s = None then 0 else 1)"
  by (simp add: sigint_handler_def comp_defs created_def connects_def closes_def
      split: option.splits)

lemma step_inv: "handle_inv s \<Longrightarrow> handle_inv (step cfg s i)"
proof (cases i)
  case (Request ep w body)
  assume "handle_inv s"
  then show ?thesis using Request handle_inv_step [OF _ handle_lifecycle [of s ep cfg w body]]
    by simp
next
  case (Sigint w)
  assume "handle_inv s"
  then show ?thesis using Sigint sigint_frame [of w s] by (simp add: handle_inv_def)
qed

lemma run_inv: "handle_inv s \<Longrightarrow> handle_inv (run cfg ins s)"
  unfolding run_def by (induction ins arbitrary: s) (simp_all add: step_inv)

lemma run_closes: "\<not> list_ex is_Sigint ins \<Longrightarrow> closes (run cfg ins s) = closes s"
  unfolding run_def
proof (induction ins arbitrary: s)
  case Nil
  then show ?case by simp
next
  case (Cons i ins)
  then obtain ep w body where i: "i = Request ep w body" by (cases i) auto
  have "closes (step cfg s i) = closes s"
    using handle_lifecycle [of s ep cfg w body] by (simp add: i lifecycle_step_def)
  then show ?case using Cons by simp
qed

lemma main_inv: "handle_inv (main env w) \<and> closes (main env w) = 0"
proof (cases "str_truthy (MONGODB_URI (load_config env))")
  case False
  then show ?thesis
    by (simp add: main_def init_state_def handle_inv_def created_def connects_def closes_def)
next
  case True
  have "lifecycle_safe (and_then (emit (Listen (PORT (load_config env))))
                  (\<lambda>_. listen_callback (load_config env) w))"
    unfolding listen_callback_def by (intro safe_intros)
  then have "lifecycle_step init_state (main env w)"
    using True by (simp add: main_def lifecycle_safe_def)
  moreover have "handle_inv init_state \<and> closes init_state = 0"
    by (simp add: handle_inv_def init_state_def created_def connects_def closes_def)
  ultimately show ?thesis using handle_inv_step [of init_state "main env w"]
    by (simp add: lifecycle_step_def)
qed

text \<open>
  C4.  The connection handle is single and is never closed or replaced by a request.
  Once \<open>mongoClient\<close> is set, no request handler changes it or \<open>db\<close>, and no request
  handler calls \<open>close\<close>.  Over the whole life of a process, from startup through any
  sequence of requests and signals and whatever the driver answers, at most one client
  is created and \<open>connect\<close> is called at most once; \<open>close\<close> is called only by the
  \<open>SIGINT\<close> handler, which calls it exactly when there is a client.
\<close>

theorem single_handle_never_closed_by_handlers:
  "(mongoClient s \<noteq> None \<longrightarrow>
      mongoClient (snd (handle ep cfg w body s)) = mongoClient s
      \<and> db (snd (handle ep cfg w body s)) = db s)
   \<and> closes (snd (handle ep cfg w body s)) = closes s
   \<and> created (run (load_config env) ins (main env w0)) \<le> 1
   \<and> connects (run (load_config env) ins (main env w0)) \<le> 1
   \<and> (\<not> list_ex is_Sigint ins \<longrightarrow> closes (run (load_config env) ins (main env w0)) = 0)
   \<and> closes (snd (sigint_handler w s)) = closes s + (if mongoClient s = None then 0 else 1)"
proof -
  have h: "lifecycle_step s (snd (handle ep cfg w body s))" by (rule handle_lifecycle)
  have i: "handle_inv (run (load_config env) ins (main env w0))"
    using main_inv run_inv by blast
  have c: "\<not> list_ex is_Sigint ins \<longrightarrow> closes (run (load_config env) ins (main env w0)) = 0"
    using run_closes [of ins "load_config env" "main env w0"] main_inv [of env w0] by simp
  show ?thesis using h i c sigint_frame [of w s] unfolding lifecycle_step_def handle_inv_def
    by auto
qed

theorem single_handle_never_closed_by_handlers_witness:
  "mongoClient state_connected \<noteq> None
   \<and> mongoClient (snd (handle (Data Query) cfg_example world_down body_example state_connected))
       = Some client_example
   \<and> db (snd (handle (Data Query) cfg_example world_down body_example state_connected))
       = Some db_example
   \<and> \<not> list_ex is_Sigint
         [Request Diagnose world_down JUndefined, Request (Data InsertOne) world_up body_example]
   \<and> closes (run (load_config env_example)
         [Request Diagnose world_down JUndefined, Request (Data InsertOne) world_up body_example]
         (main env_example world_down)) = 0
   \<and> connects (run (load_config env_example)
         [Request Diagnose world_down JUndefined, Request (Data InsertOne) world_up body_example]
         (main env_example world_down)) \<le> 1
   \<and> closes (snd (sigint_handler world_down state_connected)) = 1"
proof -
  have a: "mongoClient state_connected \<noteq> None" by (simp add: state_connected_def)
  have b: "\<not> list_ex is_Sigint
         [Request Diagnose world_down JUndefined, Request (Data InsertOne) world_up body_example]"
    by simp
  have c: "closes state_connected = 0" by (simp add: closes_def state_connected_def)
  show ?thesis
    using a b c
      single_handle_never_closed_by_handlers
        [of state_connected "Data Query" cfg_example world_down body_example env_example
            "[Request Diagnose world_down JUndefined, Request (Data InsertOne) world_up body_example]"
            world_down]
    by (simp add: state_connected_def)
qed

end
